theory Spec2Isabelle
  imports Main
begin

section \<open>The Python runtime the snippets run on\<close>

text \<open>
  The snippets of \<^verbatim>\<open>chapter_2/context_managers.py\<close> call three builtins:
  \<^verbatim>\<open>open(name, 'w')\<close>, \<^verbatim>\<open>f.write(s)\<close> and \<^verbatim>\<open>f.close()\<close>. They are modelled over an
  explicit world: the disk, the file objects (addressed by handle, since the manager and
  the body of the \<^verbatim>\<open>with\<close> block hold the same object), and a trace of the runtime
  events. Whether a name can be opened and whether its buffered data can be flushed is a
  property of the host file system, kept in the world.
\<close>

datatype exn =
    OSError
  | ValueError
  | AttributeError
  | UnboundLocalError
  | RuntimeError
  | AssertionError
  | TypeError
  | UserError string

type_synonym handle = nat

datatype event = EvOpen handle string | EvWrite handle string | EvClose handle

record file_obj =
  fname :: string
  closed :: bool
  pending :: string

record world =
  disk :: "string \<rightharpoonup> string"
  objs :: "handle \<Rightarrow> file_obj"
  next_handle :: handle
  can_open :: "string \<Rightarrow> bool"
  can_flush :: "string \<Rightarrow> bool"
  trace :: "event list"

text \<open>\<^verbatim>\<open>open(name, 'w')\<close>: raises OSError when the target cannot be opened; otherwise
  truncates the target and returns a fresh open file object.\<close>

definition py_open :: "string \<Rightarrow> world \<Rightarrow> (exn + handle) \<times> world" where
  "py_open nm w =
     (if can_open w nm then
        (Inr (next_handle w),
         w\<lparr>disk := (disk w)(nm \<mapsto> []),
           objs := (objs w)(next_handle w := \<lparr>fname = nm, closed = False, pending = []\<rparr>),
           next_handle := Suc (next_handle w),
           trace := trace w @ [EvOpen (next_handle w) nm]\<rparr>)
      else (Inl OSError, w))"

text \<open>\<^verbatim>\<open>f.write(s)\<close>: raises ValueError on a closed file, otherwise buffers the text.\<close>

definition file_write :: "handle \<Rightarrow> string \<Rightarrow> world \<Rightarrow> (exn + unit) \<times> world" where
  "file_write h s w =
     (if closed (objs w h) then (Inl ValueError, w)
      else (Inr (),
            w\<lparr>objs := (objs w)(h := (objs w h)\<lparr>pending := pending (objs w h) @ s\<rparr>),
              trace := trace w @ [EvWrite h s]\<rparr>))"

text \<open>\<^verbatim>\<open>f.close()\<close>: does nothing on a closed file; otherwise flushes the buffer and marks
  the object closed. With an empty buffer there is nothing to flush and the call succeeds.
  When buffered data cannot be flushed the object is closed all the same and OSError is
  raised.\<close>

definition file_close :: "handle \<Rightarrow> world \<Rightarrow> (exn + unit) \<times> world" where
  "file_close h w =
     (if closed (objs w h) then (Inr (), w)
      else if pending (objs w h) = [] \<or> can_flush w (fname (objs w h)) then
        (Inr (),
         w\<lparr>disk := (disk w)(fname (objs w h) \<mapsto>
                     (case disk w (fname (objs w h)) of None \<Rightarrow> [] | Some c \<Rightarrow> c)
                       @ pending (objs w h)),
           objs := (objs w)(h := (objs w h)\<lparr>closed := True, pending := []\<rparr>),
           trace := trace w @ [EvClose h]\<rparr>)
      else
        (Inl OSError,
         w\<lparr>objs := (objs w)(h := (objs w h)\<lparr>closed := True\<rparr>),
           trace := trace w @ [EvClose h]\<rparr>))"

section \<open>The body of a scope\<close>

text \<open>
  The caller-supplied block of a \<^verbatim>\<open>with\<close> statement: writes to the bound file, ended
  by the end of the block, by an early exit (\<^verbatim>\<open>return\<close>, \<^verbatim>\<open>break\<close>) or by a raised
  exception.
\<close>

datatype cmd = Write string | Raise exn | Return

datatype outcome = Normal | Early | Raised exn

fun run_body :: "cmd list \<Rightarrow> handle \<Rightarrow> world \<Rightarrow> outcome \<times> world" where
  "run_body [] h w = (Normal, w)"
| "run_body (Write s # cs) h w =
     (case file_write h s w of
        (Inl e, w') \<Rightarrow> (Raised e, w')
      | (Inr _, w') \<Rightarrow> run_body cs h w')"
| "run_body (Raise e # cs) h w = (Raised e, w)"
| "run_body (Return # cs) h w = (Early, w)"

text \<open>What a body does on a file that stays open: the texts it writes and how it ends.\<close>

fun body_writes :: "cmd list \<Rightarrow> string list" where
  "body_writes [] = []"
| "body_writes (Write s # cs) = s # body_writes cs"
| "body_writes (Raise e # cs) = []"
| "body_writes (Return # cs) = []"

fun body_outcome :: "cmd list \<Rightarrow> outcome" where
  "body_outcome [] = Normal"
| "body_outcome (Write s # cs) = body_outcome cs"
| "body_outcome (Raise e # cs) = Raised e"
| "body_outcome (Return # cs) = Early"

section \<open>The \<^verbatim>\<open>with\<close> statement\<close>

text \<open>
  \<^verbatim>\<open>with mgr as v: body\<close> calls \<^verbatim>\<open>__enter__\<close>; when that raises, the exception
  propagates and \<^verbatim>\<open>__exit__\<close> is not called. Otherwise the body runs, and
  \<^verbatim>\<open>__exit__\<close> is called once: with the exception when the body raised, with
  \<^verbatim>\<open>None\<close> otherwise. An exception raised by \<^verbatim>\<open>__exit__\<close> replaces whatever was
  propagating; a true result of \<^verbatim>\<open>__exit__\<close> suppresses the body's exception.
\<close>

definition with_stmt ::
  "('m \<Rightarrow> 's \<Rightarrow> (exn + 'v) \<times> 'm \<times> 's) \<Rightarrow>
   ('m \<Rightarrow> exn option \<Rightarrow> 's \<Rightarrow> (exn + bool) \<times> 'm \<times> 's) \<Rightarrow>
   ('v \<Rightarrow> 's \<Rightarrow> outcome \<times> 's) \<Rightarrow> 'm \<Rightarrow> 's \<Rightarrow> outcome \<times> 'm \<times> 's" where
  "with_stmt enter exit body m w =
     (case enter m w of
        (Inl e, m1, w1) \<Rightarrow> (Raised e, m1, w1)
      | (Inr v, m1, w1) \<Rightarrow>
          (case body v w1 of
             (Raised e, w2) \<Rightarrow>
               (case exit m1 (Some e) w2 of
                  (Inl e', m3, w3) \<Rightarrow> (Raised e', m3, w3)
                | (Inr suppress, m3, w3) \<Rightarrow>
                    (if suppress then (Normal, m3, w3) else (Raised e, m3, w3)))
           | (r, w2) \<Rightarrow>
               (case exit m1 None w2 of
                  (Inl e', m3, w3) \<Rightarrow> (Raised e', m3, w3)
                | (Inr _, m3, w3) \<Rightarrow> (r, m3, w3))))"

section \<open>ManagedFile\<close>

text \<open>
  \<^verbatim>\<open>__init__\<close> sets \<^verbatim>\<open>self.name\<close> only; the attribute \<^verbatim>\<open>self.file\<close> exists once
  \<^verbatim>\<open>__enter__\<close> has assigned it. \<open>mfile self = None\<close> stands for the missing attribute
  (reading it raises AttributeError), \<open>Some h\<close> for the file object it refers to.
\<close>

record ManagedFile =
  name :: string
  mfile :: "handle option"

definition ManagedFile_init :: "string \<Rightarrow> ManagedFile" where
  "ManagedFile_init nm = \<lparr>name = nm, mfile = None\<rparr>"

definition ManagedFile_enter ::
  "ManagedFile \<Rightarrow> world \<Rightarrow> (exn + handle) \<times> ManagedFile \<times> world" where
  "ManagedFile_enter self w =
     (case py_open (name self) w of
        (Inl e, w') \<Rightarrow> (Inl e, self, w')
      | (Inr h, w') \<Rightarrow> (Inr h, self\<lparr>mfile := Some h\<rparr>, w'))"

text \<open>\<^verbatim>\<open>if self.file: self.file.close()\<close>. A file object is always true, so the test
  passes whenever the attribute exists. The method returns \<^verbatim>\<open>None\<close>, which is false.\<close>

definition ManagedFile_exit ::
  "ManagedFile \<Rightarrow> exn option \<Rightarrow> world \<Rightarrow> (exn + bool) \<times> ManagedFile \<times> world" where
  "ManagedFile_exit self exc w =
     (case mfile self of
        None \<Rightarrow> (Inl AttributeError, self, w)
      | Some h \<Rightarrow>
          (case file_close h w of
             (Inl e, w') \<Rightarrow> (Inl e, self, w')
           | (Inr _, w') \<Rightarrow> (Inr False, self, w')))"

text \<open>\<^verbatim>\<open>with ManagedFile(name) as f: body\<close>\<close>

definition with_ManagedFile :: "string \<Rightarrow> cmd list \<Rightarrow> world \<Rightarrow> outcome \<times> ManagedFile \<times> world" where
  "with_ManagedFile nm cs w =
     with_stmt ManagedFile_enter ManagedFile_exit (run_body cs) (ManagedFile_init nm) w"

section \<open>The generator-based manager\<close>

text \<open>
  \<^verbatim>\<open>managed_file\<close> is a generator function: \<^verbatim>\<open>try: f = open(name, 'w'); yield f\<close>
  with \<^verbatim>\<open>finally: f.close()\<close>. Its frame holds the local variable \<^verbatim>\<open>f\<close>, unbound
  (\<open>None\<close>) until \<^verbatim>\<open>open\<close> has returned. A run of the generator up to its next
  suspension yields, returns, raises a new exception, or lets the exception thrown into it
  propagate (\<open>Rethrown\<close>).
\<close>

datatype gen_result = Yielded handle | Returned | Thrown exn | Rethrown

text \<open>The \<^verbatim>\<open>finally\<close> clause: \<^verbatim>\<open>f.close()\<close>; reading the unbound local raises
  UnboundLocalError.\<close>

definition managed_file_finally :: "handle option \<Rightarrow> world \<Rightarrow> (exn + unit) \<times> world" where
  "managed_file_finally f w =
     (case f of
        None \<Rightarrow> (Inl UnboundLocalError, w)
      | Some h \<Rightarrow> file_close h w)"

text \<open>From the start of the generator to the \<^verbatim>\<open>yield\<close>. When \<^verbatim>\<open>open\<close> raises,
  the \<^verbatim>\<open>finally\<close> clause runs before the exception leaves the generator, and an
  exception raised there replaces it.\<close>

definition managed_file_start :: "string \<Rightarrow> world \<Rightarrow> gen_result \<times> handle option \<times> world" where
  "managed_file_start nm w =
     (case py_open nm w of
        (Inr h, w1) \<Rightarrow> (Yielded h, Some h, w1)
      | (Inl e, w1) \<Rightarrow>
          (case managed_file_finally None w1 of
             (Inl e', w2) \<Rightarrow> (Thrown e', None, w2)
           | (Inr _, w2) \<Rightarrow> (Thrown e, None, w2)))"

text \<open>From the \<^verbatim>\<open>yield\<close> to the end: resumed normally (\<open>None\<close>) or with an exception
  thrown in at the \<^verbatim>\<open>yield\<close>; either way the \<^verbatim>\<open>finally\<close> clause runs.\<close>

definition managed_file_resume ::
  "handle option \<Rightarrow> exn option \<Rightarrow> world \<Rightarrow> gen_result \<times> handle option \<times> world" where
  "managed_file_resume f exc w =
     (case managed_file_finally f w of
        (Inl e', w1) \<Rightarrow> (Thrown e', f, w1)
      | (Inr _, w1) \<Rightarrow>
          (case exc of
             None \<Rightarrow> (Returned, f, w1)
           | Some e \<Rightarrow> (Rethrown, f, w1)))"

text \<open>
  The decorator \<^verbatim>\<open>@contextmanager\<close> wraps the generator: \<^verbatim>\<open>__enter__\<close> runs it to
  the \<^verbatim>\<open>yield\<close> and returns the yielded value; \<^verbatim>\<open>__exit__\<close> resumes it (throwing the
  body's exception in, when there is one), returns false when the generator stops or lets
  that same exception through, and raises whatever else the generator raises.
\<close>

definition cm_enter ::
  "('s \<Rightarrow> gen_result \<times> 'g \<times> 's) \<Rightarrow> 'g \<Rightarrow> 's \<Rightarrow> (exn + handle) \<times> 'g \<times> 's" where
  "cm_enter start g w =
     (case start w of
        (Yielded v, g1, w1) \<Rightarrow> (Inr v, g1, w1)
      | (Returned, g1, w1) \<Rightarrow> (Inl RuntimeError, g1, w1)
      | (Thrown e, g1, w1) \<Rightarrow> (Inl e, g1, w1)
      | (Rethrown, g1, w1) \<Rightarrow> (Inl RuntimeError, g1, w1))"

definition cm_exit ::
  "('g \<Rightarrow> exn option \<Rightarrow> 's \<Rightarrow> gen_result \<times> 'g \<times> 's) \<Rightarrow>
   'g \<Rightarrow> exn option \<Rightarrow> 's \<Rightarrow> (exn + bool) \<times> 'g \<times> 's" where
  "cm_exit resume g exc w =
     (case exc of
        None \<Rightarrow>
          (case resume g None w of
             (Returned, g1, w1) \<Rightarrow> (Inr False, g1, w1)
           | (Thrown e, g1, w1) \<Rightarrow> (Inl e, g1, w1)
           | (Yielded v, g1, w1) \<Rightarrow> (Inl RuntimeError, g1, w1)
           | (Rethrown, g1, w1) \<Rightarrow> (Inl RuntimeError, g1, w1))
      | Some e \<Rightarrow>
          (case resume g (Some e) w of
             (Returned, g1, w1) \<Rightarrow> (Inr True, g1, w1)
           | (Rethrown, g1, w1) \<Rightarrow> (Inr False, g1, w1)
           | (Thrown e', g1, w1) \<Rightarrow> (Inl e', g1, w1)
           | (Yielded v, g1, w1) \<Rightarrow> (Inl RuntimeError, g1, w1)))"

text \<open>\<^verbatim>\<open>with managed_file(name) as f: body\<close>\<close>

definition with_managed_file ::
  "string \<Rightarrow> cmd list \<Rightarrow> world \<Rightarrow> outcome \<times> handle option \<times> world" where
  "with_managed_file nm cs w =
     with_stmt (cm_enter (managed_file_start nm)) (cm_exit managed_file_resume)
       (run_body cs) None w"

section \<open>The builtin file as a manager, and the code without a manager\<close>

text \<open>A file object is its own manager: \<^verbatim>\<open>__enter__\<close> returns the object (ValueError
  when it is closed), \<^verbatim>\<open>__exit__\<close> closes it and returns \<^verbatim>\<open>None\<close>.\<close>

definition file_enter :: "handle \<Rightarrow> world \<Rightarrow> (exn + handle) \<times> handle \<times> world" where
  "file_enter h w = (if closed (objs w h) then (Inl ValueError, h, w) else (Inr h, h, w))"

definition file_exit :: "handle \<Rightarrow> exn option \<Rightarrow> world \<Rightarrow> (exn + bool) \<times> handle \<times> world" where
  "file_exit h exc w =
     (case file_close h w of
        (Inl e, w') \<Rightarrow> (Inl e, h, w')
      | (Inr _, w') \<Rightarrow> (Inr False, h, w'))"

text \<open>\<^verbatim>\<open>with open(name, 'w') as f: body\<close>\<close>

definition with_open :: "string \<Rightarrow> cmd list \<Rightarrow> world \<Rightarrow> outcome \<times> world" where
  "with_open nm cs w =
     (case py_open nm w of
        (Inl e, w1) \<Rightarrow> (Raised e, w1)
      | (Inr h, w1) \<Rightarrow>
          (case with_stmt file_enter file_exit (run_body cs) h w1 of
             (r, _, w3) \<Rightarrow> (r, w3)))"

text \<open>\<^verbatim>\<open>f = open(name, 'w')\<close>, then \<^verbatim>\<open>try: body\<close> with \<^verbatim>\<open>finally: f.close()\<close>: the
  exception of the \<^verbatim>\<open>finally\<close> clause replaces the outcome of the body.\<close>

definition open_try_finally :: "string \<Rightarrow> cmd list \<Rightarrow> world \<Rightarrow> outcome \<times> world" where
  "open_try_finally nm cs w =
     (case py_open nm w of
        (Inl e, w1) \<Rightarrow> (Raised e, w1)
      | (Inr h, w1) \<Rightarrow>
          (case run_body cs h w1 of
             (r, w2) \<Rightarrow>
               (case file_close h w2 of
                  (Inl e, w3) \<Rightarrow> (Raised e, w3)
                | (Inr _, w3) \<Rightarrow> (r, w3))))"

section \<open>Observations on a run\<close>

text \<open>The runtime events between two worlds of one run.\<close>

definition scope_events :: "world \<Rightarrow> world \<Rightarrow> event list" where
  "scope_events w w' = drop (length (trace w)) (trace w')"

text \<open>The life cycle of a resource: a handle that \<^verbatim>\<open>open\<close> has not handed out yet is
  unopened; afterwards the file object says whether it is closed.\<close>

datatype rstate = Unopened | Open | Closed

definition resource_state :: "world \<Rightarrow> handle \<Rightarrow> rstate" where
  "resource_state w h =
     (if next_handle w \<le> h then Unopened
      else if closed (objs w h) then Closed
      else Open)"

section \<open>Indenter\<close>

record Indenter =
  level :: int

definition Indenter_init :: Indenter where
  "Indenter_init = \<lparr>level = 0\<rparr>"

definition Indenter_enter :: "Indenter \<Rightarrow> Indenter" where
  "Indenter_enter self = self\<lparr>level := level self + 1\<rparr>"

definition Indenter_exit :: "Indenter \<Rightarrow> Indenter" where
  "Indenter_exit self = self\<lparr>level := level self - 1\<rparr>"

text \<open>\<^verbatim>\<open>' ' * self.level + msg\<close>: a negative count gives the empty string.\<close>

definition Indenter_print :: "Indenter \<Rightarrow> string \<Rightarrow> string" where
  "Indenter_print self msg = replicate (nat (level self)) (CHR '' '') @ msg"

text \<open>A sequence of \<^verbatim>\<open>__enter__\<close> and \<^verbatim>\<open>__exit__\<close> calls on one Indenter.\<close>

datatype call = Enter | Exit

fun run_calls :: "call list \<Rightarrow> Indenter \<Rightarrow> Indenter" where
  "run_calls [] self = self"
| "run_calls (Enter # cs) self = run_calls cs (Indenter_enter self)"
| "run_calls (Exit # cs) self = run_calls cs (Indenter_exit self)"

text \<open>The nested scopes of the module: the Indenter and the printed lines are the state,
  \<^verbatim>\<open>__enter__\<close> returns the object itself and \<^verbatim>\<open>__exit__\<close> returns \<^verbatim>\<open>None\<close>.\<close>

type_synonym istate = "Indenter \<times> string list"

definition indent_enter :: "unit \<Rightarrow> istate \<Rightarrow> (exn + unit) \<times> unit \<times> istate" where
  "indent_enter u s = (Inr (), (), (Indenter_enter (fst s), snd s))"

definition indent_exit :: "unit \<Rightarrow> exn option \<Rightarrow> istate \<Rightarrow> (exn + bool) \<times> unit \<times> istate" where
  "indent_exit u exc s = (Inr False, (), (Indenter_exit (fst s), snd s))"

definition indent_print :: "string \<Rightarrow> istate \<Rightarrow> istate" where
  "indent_print msg s = (fst s, snd s @ [Indenter_print (fst s) msg])"

definition indenter_inner :: "unit \<Rightarrow> istate \<Rightarrow> outcome \<times> istate" where
  "indenter_inner u s = (Normal, indent_print ''bonjour'' s)"

definition indenter_middle :: "unit \<Rightarrow> istate \<Rightarrow> outcome \<times> istate" where
  "indenter_middle u s =
     (case with_stmt indent_enter indent_exit indenter_inner () (indent_print ''hello'' s) of
        (r, _, s') \<Rightarrow> (r, s'))"

definition indenter_outer :: "unit \<Rightarrow> istate \<Rightarrow> outcome \<times> istate" where
  "indenter_outer u s =
     (case with_stmt indent_enter indent_exit indenter_middle () (indent_print ''Hi'' s) of
        (Normal, _, s') \<Rightarrow> (Normal, indent_print ''hey'' s')
      | (r, _, s') \<Rightarrow> (r, s'))"

definition indenter_demo :: "outcome \<times> unit \<times> istate" where
  "indenter_demo = with_stmt indent_enter indent_exit indenter_outer () (Indenter_init, [])"

section \<open>Timer\<close>

text \<open>
  \<^verbatim>\<open>datetime.utcnow()\<close> reads the wall clock of the host. The readings are a property of
  the host: \<open>clock w k\<close> is what the \<open>k\<close>-th call returns, in time units; nothing in
  the program makes a later reading larger than an earlier one. \<^verbatim>\<open>time.sleep\<close> leaves
  the state of the program as it is: the time that passes shows in the readings. A printed
  line is a text, or the text \<^verbatim>\<open>Function duration:\<close> followed by a difference of two
  readings.
\<close>

datatype printed = Text string | Duration int

record tworld =
  clock :: "nat \<Rightarrow> int"
  reads :: nat
  stdout :: "printed list"

definition utcnow :: "tworld \<Rightarrow> int \<times> tworld" where
  "utcnow w = (clock w (reads w), w\<lparr>reads := Suc (reads w)\<rparr>)"

definition py_print :: "printed \<Rightarrow> tworld \<Rightarrow> tworld" where
  "py_print x w = w\<lparr>stdout := stdout w @ [x]\<rparr>"

definition sleep :: "int \<Rightarrow> tworld \<Rightarrow> tworld" where
  "sleep d w = w"

text \<open>The attributes \<^verbatim>\<open>self.start\<close> and \<^verbatim>\<open>self.end\<close>, both \<^verbatim>\<open>None\<close> after
  \<^verbatim>\<open>__init__\<close>.\<close>

record Timer =
  start :: "int option"
  end_t :: "int option"

definition Timer_init :: Timer where
  "Timer_init = \<lparr>start = None, end_t = None\<rparr>"

text \<open>\<^verbatim>\<open>__enter__\<close> has no \<^verbatim>\<open>return\<close>: the value bound by \<^verbatim>\<open>as timer\<close> is
  \<^verbatim>\<open>None\<close>.\<close>

definition Timer_enter :: "Timer \<Rightarrow> tworld \<Rightarrow> (exn + Timer option) \<times> Timer \<times> tworld" where
  "Timer_enter self w =
     (case utcnow w of
        (t, w') \<Rightarrow> (Inr None, self\<lparr>start := Some t\<rparr>, w'))"

text \<open>\<^verbatim>\<open>self.end - self.start\<close> raises TypeError when \<^verbatim>\<open>self.start\<close> is still
  \<^verbatim>\<open>None\<close>.\<close>

definition Timer_exit ::
  "Timer \<Rightarrow> exn option \<Rightarrow> tworld \<Rightarrow> (exn + bool) \<times> Timer \<times> tworld" where
  "Timer_exit self exc w =
     (case utcnow w of
        (t, w') \<Rightarrow>
          (case start self of
             None \<Rightarrow> (Inl TypeError, self\<lparr>end_t := Some t\<rparr>, w')
           | Some t0 \<Rightarrow>
               (Inr False, self\<lparr>end_t := Some t\<rparr>, py_print (Duration (t - t0)) w')))"

text \<open>\<^verbatim>\<open>with Timer() as timer:\<close> around two prints and \<^verbatim>\<open>time.sleep(5)\<close>.\<close>

definition timer_body :: "Timer option \<Rightarrow> tworld \<Rightarrow> outcome \<times> tworld" where
  "timer_body timer w =
     (Normal, py_print (Text ''end.'') (sleep 5 (py_print (Text ''Starting...'') w)))"

definition timer_scope :: "tworld \<Rightarrow> outcome \<times> Timer \<times> tworld" where
  "timer_scope w = with_stmt Timer_enter Timer_exit timer_body Timer_init w"

section \<open>The assert statement\<close>

text \<open>
  \<^verbatim>\<open>assert expression1\<close> of \<^verbatim>\<open>chapter_2/assertions.py\<close>: when assertions are enabled
  and the value of the expression is false, AssertionError is raised; with \<^verbatim>\<open>-O\<close> the
  statement does nothing.
\<close>

datatype py_val = PNone | PBool bool | PInt int | PStr string | PTuple "py_val list"

fun truthy :: "py_val \<Rightarrow> bool" where
  "truthy PNone = False"
| "truthy (PBool b) = b"
| "truthy (PInt i) = (i \<noteq> 0)"
| "truthy (PStr s) = (s \<noteq> [])"
| "truthy (PTuple vs) = (vs \<noteq> [])"

definition assert_stmt :: "bool \<Rightarrow> py_val \<Rightarrow> exn + unit" where
  "assert_stmt debug v = (if debug \<and> \<not> truthy v then Inl AssertionError else Inr ())"

text \<open>\<^verbatim>\<open>assert (1 == 2, 'This should fail...')\<close>\<close>

definition tuple_assert :: "bool \<Rightarrow> exn + unit" where
  "tuple_assert debug =
     assert_stmt debug (PTuple [PBool ((1::int) = 2), PStr ''This should fail...''])"

section \<open>Worlds for concrete runs\<close>

definition no_file :: file_obj where
  "no_file = \<lparr>fname = [], closed = True, pending = []\<rparr>"

text \<open>An empty disk on which every target can be opened and flushed.\<close>

definition world_ok :: world where
  "world_ok = \<lparr>disk = Map.empty, objs = (\<lambda>h. no_file), next_handle = 0,
               can_open = (\<lambda>n. True), can_flush = (\<lambda>n. True), trace = []\<rparr>"

text \<open>No target can be opened (a read-only or missing directory).\<close>

definition world_locked :: world where
  "world_locked = world_ok\<lparr>can_open := (\<lambda>n. False)\<rparr>"

text \<open>Targets open, but flushing fails (a full disk).\<close>

definition world_full :: world where
  "world_full = world_ok\<lparr>can_flush := (\<lambda>n. False)\<rparr>"

text \<open>A clock that advances five units between readings, and one that is set back after
  the first reading.\<close>

definition clock_steady :: "nat \<Rightarrow> int" where
  "clock_steady k = 5 * int k"

definition clock_set_back :: "nat \<Rightarrow> int" where
  "clock_set_back k = (if k = 0 then 10 else 7)"

definition world_clock :: "(nat \<Rightarrow> int) \<Rightarrow> tworld" where
  "world_clock c = \<lparr>clock = c, reads = 0, stdout = []\<rparr>"

section \<open>The runtime primitives and the body\<close>

lemma py_open_ok:
  "can_open w nm \<Longrightarrow>
   py_open nm w =
     (Inr (next_handle w),
      w\<lparr>disk := (disk w)(nm \<mapsto> []),
        objs := (objs w)(next_handle w := \<lparr>fname = nm, closed = False, pending = []\<rparr>),
        next_handle := Suc (next_handle w),
        trace := trace w @ [EvOpen (next_handle w) nm]\<rparr>)"
  by (simp add: py_open_def)

lemma py_open_fail: "\<not> can_open w nm \<Longrightarrow> py_open nm w = (Inl OSError, w)"
  by (simp add: py_open_def)

lemma run_body_open:
  "\<not> closed (objs w h) \<Longrightarrow>
   run_body cs h w =
     (body_outcome cs,
      w\<lparr>objs := (objs w)(h := (objs w h)\<lparr>pending := pending (objs w h) @ concat (body_writes cs)\<rparr>),
        trace := trace w @ map (EvWrite h) (body_writes cs)\<rparr>)"
proof (induction cs arbitrary: w)
  case Nil
  then show ?case by simp
next
  case (Cons c cs)
  show ?case
  proof (cases c)
    case (Write s)
    let ?w' = "w\<lparr>objs := (objs w)(h := (objs w h)\<lparr>pending := pending (objs w h) @ s\<rparr>),
              trace := trace w @ [EvWrite h s]\<rparr>"
    have fw: "file_write h s w = (Inr (), ?w')"
      using Cons.prems by (simp add: file_write_def)
    have op: "\<not> closed (objs ?w' h)" using Cons.prems by simp
    have "run_body (c # cs) h w = run_body cs h ?w'"
      using fw Write by simp
    also have "\<dots> = (body_outcome cs,
        ?w'\<lparr>objs := (objs ?w')(h := (objs ?w' h)\<lparr>pending := pending (objs ?w' h) @ concat (body_writes cs)\<rparr>),
          trace := trace ?w' @ map (EvWrite h) (body_writes cs)\<rparr>)"
      by (rule Cons.IH [OF op])
    also have "\<dots> = (body_outcome (c # cs),
        w\<lparr>objs := (objs w)(h := (objs w h)\<lparr>pending := pending (objs w h) @ concat (body_writes (c # cs))\<rparr>),
          trace := trace w @ map (EvWrite h) (body_writes (c # cs))\<rparr>)"
      using Write by simp
    finally show ?thesis .
  next
    case (Raise e)
    then show ?thesis by simp
  next
    case Return
    then show ?thesis by simp
  qed
qed

section \<open>The three scoped forms against the code without a manager\<close>

text \<open>
  The class-based manager and the builtin file behave as \<^verbatim>\<open>open\<close> followed by
  \<^verbatim>\<open>try\<close>/\<^verbatim>\<open>finally\<close> in every world; the generator-based manager does so when the
  target opens.
\<close>

lemma with_ManagedFile_try_finally:
  "(fst (with_ManagedFile nm cs w), snd (snd (with_ManagedFile nm cs w))) = open_try_finally nm cs w"
  by (auto simp: with_ManagedFile_def with_stmt_def ManagedFile_enter_def ManagedFile_exit_def
      ManagedFile_init_def open_try_finally_def split: prod.splits sum.splits outcome.splits)

lemma with_open_try_finally: "with_open nm cs w = open_try_finally nm cs w"
  by (auto simp: with_open_def with_stmt_def file_enter_def file_exit_def py_open_def
      open_try_finally_def split: prod.splits sum.splits outcome.splits)

lemma with_managed_file_try_finally:
  "can_open w nm \<Longrightarrow>
   (fst (with_managed_file nm cs w), snd (snd (with_managed_file nm cs w)))
     = open_try_finally nm cs w"
  by (auto simp: with_managed_file_def with_stmt_def cm_enter_def cm_exit_def
      managed_file_start_def managed_file_resume_def managed_file_finally_def py_open_ok
      open_try_finally_def split: prod.splits sum.splits outcome.splits)

lemma with_managed_file_locked:
  "\<not> can_open w nm \<Longrightarrow> with_managed_file nm cs w = (Raised UnboundLocalError, None, w)"
  by (simp add: with_managed_file_def with_stmt_def cm_enter_def managed_file_start_def
      managed_file_finally_def py_open_fail)

lemma with_ManagedFile_locked:
  "\<not> can_open w nm \<Longrightarrow> with_ManagedFile nm cs w = (Raised OSError, ManagedFile_init nm, w)"
  by (simp add: with_ManagedFile_def with_stmt_def ManagedFile_enter_def ManagedFile_init_def
      py_open_fail)

text \<open>The outcome and the world at the end of a scope whose target opens.\<close>

lemma open_try_finally_ok:
  assumes "can_open w nm"
  shows "open_try_finally nm cs w =
     (let h = next_handle w;
          w2 = w\<lparr>disk := (disk w)(nm \<mapsto> []),
                 objs := (objs w)(h := \<lparr>fname = nm, closed = False,
                                        pending = concat (body_writes cs)\<rparr>),
                 next_handle := Suc h,
                 trace := trace w @ EvOpen h nm # map (EvWrite h) (body_writes cs)\<rparr>
      in if concat (body_writes cs) = [] \<or> can_flush w nm then
           (body_outcome cs,
            w2\<lparr>disk := (disk w)(nm \<mapsto> concat (body_writes cs)),
               objs := (objs w)(h := \<lparr>fname = nm, closed = True, pending = []\<rparr>),
               trace := trace w2 @ [EvClose h]\<rparr>)
         else
           (Raised OSError,
            w2\<lparr>objs := (objs w)(h := \<lparr>fname = nm, closed = True,
                                       pending = concat (body_writes cs)\<rparr>),
               trace := trace w2 @ [EvClose h]\<rparr>))"
proof -
  let ?h = "next_handle w"
  let ?w1 = "w\<lparr>disk := (disk w)(nm \<mapsto> []),
        objs := (objs w)(?h := \<lparr>fname = nm, closed = False, pending = []\<rparr>),
        next_handle := Suc ?h,
        trace := trace w @ [EvOpen ?h nm]\<rparr>"
  have o: "py_open nm w = (Inr ?h, ?w1)" using assms by (rule py_open_ok)
  have op: "\<not> closed (objs ?w1 ?h)" by simp
  show ?thesis
    by (simp add: open_try_finally_def o run_body_open [OF op] file_close_def Let_def)
qed


lemma open_try_finally_outcome:
  "can_open w nm \<Longrightarrow>
   fst (open_try_finally nm cs w) =
     (if concat (body_writes cs) = [] \<or> can_flush w nm then body_outcome cs
      else Raised OSError)"
  by (simp add: open_try_finally_ok Let_def)

text \<open>The same outcome, read off the result of the closing call itself.\<close>

lemma open_try_finally_release:
  assumes "can_open w nm"
  shows "fst (open_try_finally nm cs w) =
     (case fst (file_close (next_handle w)
                  (snd (run_body cs (next_handle w) (snd (py_open nm w))))) of
        Inl e' \<Rightarrow> Raised e'
      | Inr u \<Rightarrow> body_outcome cs)"
proof -
  let ?h = "next_handle w"
  have o: "py_open nm w = (Inr ?h, snd (py_open nm w))"
    using assms by (simp add: py_open_def)
  have op: "\<not> closed (objs (snd (py_open nm w)) ?h)"
    using assms by (simp add: py_open_def)
  have b: "run_body cs ?h (snd (py_open nm w))
             = (body_outcome cs, snd (run_body cs ?h (snd (py_open nm w))))"
    by (simp add: run_body_open [OF op])
  have "open_try_finally nm cs w =
      (case file_close ?h (snd (run_body cs ?h (snd (py_open nm w)))) of
         (Inl e, w3) \<Rightarrow> (Raised e, w3)
       | (Inr u, w3) \<Rightarrow> (body_outcome cs, w3))"
    unfolding open_try_finally_def by (subst o, simp, subst b, simp)
  then show ?thesis
    by (simp split: prod.splits sum.splits)
qed

lemma open_try_finally_trace:
  "can_open w nm \<Longrightarrow>
   trace (snd (open_try_finally nm cs w)) =
     trace w @ EvOpen (next_handle w) nm # map (EvWrite (next_handle w)) (body_writes cs)
       @ [EvClose (next_handle w)]"
  by (simp add: open_try_finally_ok Let_def)

lemma open_try_finally_closed:
  "can_open w nm \<Longrightarrow> closed (objs (snd (open_try_finally nm cs w)) (next_handle w))"
  by (simp add: open_try_finally_ok Let_def)

lemma open_try_finally_disk:
  "can_open w nm \<Longrightarrow> can_flush w nm \<Longrightarrow>
   disk (snd (open_try_finally nm cs w)) nm = Some (concat (body_writes cs))"
  by (simp add: open_try_finally_ok Let_def)

lemma with_ManagedFile_fst: "fst (with_ManagedFile nm cs w) = fst (open_try_finally nm cs w)"
  using with_ManagedFile_try_finally [of nm cs w] by (metis fst_conv)

lemma with_ManagedFile_world:
  "snd (snd (with_ManagedFile nm cs w)) = snd (open_try_finally nm cs w)"
  using with_ManagedFile_try_finally [of nm cs w] by (metis snd_conv)

lemma with_managed_file_fst:
  "can_open w nm \<Longrightarrow> fst (with_managed_file nm cs w) = fst (open_try_finally nm cs w)"
  using with_managed_file_try_finally [of w nm cs] by (metis fst_conv)

lemma with_managed_file_world:
  "can_open w nm \<Longrightarrow>
   snd (snd (with_managed_file nm cs w)) = snd (open_try_finally nm cs w)"
  using with_managed_file_try_finally [of w nm cs] by (metis snd_conv)

lemma count_list_map_EvWrite_close [simp]: "count_list (map (EvWrite h) xs) (EvClose h') = 0"
  by (induction xs) auto

lemma count_list_map_EvWrite_open [simp]: "count_list (map (EvWrite h) xs) (EvOpen h' n) = 0"
  by (induction xs) auto

lemma ManagedFile_exit_closes:
  "mfile m = Some h \<Longrightarrow>
   closed (objs (snd (snd (ManagedFile_exit m exc w))) h)
   \<and> fst (snd (ManagedFile_exit m exc w)) = m"
  by (simp add: ManagedFile_exit_def file_close_def)

text \<open>No runtime primitive reopens a closed file object.\<close>

lemma closed_is_terminal:
  assumes "resource_state w h = Closed"
  shows "resource_state (snd (py_open nm w)) h = Closed"
    and "resource_state (snd (file_write h' s w)) h = Closed"
    and "resource_state (snd (file_close h' w)) h = Closed"
  using assms
  by (auto simp: resource_state_def py_open_def file_write_def file_close_def
      split: if_splits)

section \<open>Indenter: the level counts the unmatched enters\<close>

lemma level_run_calls:
  "level (run_calls cs self) = level self + int (count_list cs Enter) - int (count_list cs Exit)"
proof (induction cs arbitrary: self)
  case Nil
  show ?case by simp
next
  case (Cons c cs)
  show ?case
    by (cases c) (simp_all add: Cons.IH Indenter_enter_def Indenter_exit_def)
qed

lemma count_list_replicate_Enter [simp]:
  "count_list (replicate n Enter) Enter = n" "count_list (replicate n Enter) Exit = 0"
  by (induction n) auto

lemma count_list_replicate_Exit [simp]:
  "count_list (replicate n Exit) Exit = n" "count_list (replicate n Exit) Enter = 0"
  by (induction n) auto

text \<open>The module's nested scopes print each message indented by the current depth and
  leave the level at zero.\<close>

lemma indenter_demo_run:
  "indenter_demo = (Normal, (), (Indenter_init, ['' Hi'', ''  hello'', ''   bonjour'', '' hey'']))"
  by (simp add: indenter_demo_def indenter_outer_def indenter_middle_def indenter_inner_def
      with_stmt_def indent_enter_def indent_exit_def indent_print_def Indenter_print_def
      Indenter_enter_def Indenter_exit_def Indenter_init_def eval_nat_numeral)

section \<open>Release on every exit path\<close>

text \<open>
  C1. For every scope entered successfully and every way the body ends (normal completion,
  early exit, raised exception), the runtime events of the scope are: the open, the writes
  the body performed, and then one close of the acquired file, as the last event. This
  holds for the class-based and for the generator-based manager.
\<close>

theorem release_exactly_once:
  "can_open w nm \<Longrightarrow>
   trace (snd (snd (with_ManagedFile nm cs w))) =
     trace w @ EvOpen (next_handle w) nm # map (EvWrite (next_handle w)) (body_writes cs)
       @ [EvClose (next_handle w)]
   \<and> count_list (scope_events w (snd (snd (with_ManagedFile nm cs w))))
        (EvClose (next_handle w)) = 1
   \<and> trace (snd (snd (with_managed_file nm cs w))) =
     trace w @ EvOpen (next_handle w) nm # map (EvWrite (next_handle w)) (body_writes cs)
       @ [EvClose (next_handle w)]
   \<and> count_list (scope_events w (snd (snd (with_managed_file nm cs w))))
        (EvClose (next_handle w)) = 1"
  by (simp add: with_ManagedFile_world with_managed_file_world open_try_finally_trace
      scope_events_def)

theorem release_exactly_once_witness:
  "can_open world_ok ''test.txt''
   \<and> trace (snd (snd (with_ManagedFile ''test.txt''
        [Write ''Hello, World!'', Raise (UserError ''boom''), Write ''end of file''] world_ok)))
       = [EvOpen 0 ''test.txt'', EvWrite 0 ''Hello, World!'', EvClose 0]
   \<and> trace (snd (snd (with_managed_file ''test.txt''
        [Write ''Hello, World!'', Return] world_ok)))
       = [EvOpen 0 ''test.txt'', EvWrite 0 ''Hello, World!'', EvClose 0]"
proof -
  have ok: "can_open world_ok ''test.txt''" by (simp add: world_ok_def)
  show ?thesis
    using ok
      release_exactly_once [OF ok, of "[Write ''Hello, World!'', Raise (UserError ''boom''), Write ''end of file'']"]
      release_exactly_once [OF ok, of "[Write ''Hello, World!'', Return]"]
    by (simp add: world_ok_def)
qed

section \<open>Which error the caller observes\<close>

text \<open>
  When the body raises and the flush inside \<^verbatim>\<open>close\<close> fails, \<^verbatim>\<open>__exit__\<close> raises
  OSError and the caller observes that error, not the one the body raised.
\<close>

theorem release_failure_masks_operation_error:
  "can_open world_full ''test.txt''
   \<and> fst (run_body [Write ''Hello, World!'', Raise (UserError ''boom'')] 0
          (snd (snd (ManagedFile_enter (ManagedFile_init ''test.txt'') world_full))))
       = Raised (UserError ''boom'')
   \<and> fst (with_ManagedFile ''test.txt''
          [Write ''Hello, World!'', Raise (UserError ''boom'')] world_full) = Raised OSError
   \<and> fst (with_ManagedFile ''test.txt''
          [Write ''Hello, World!'', Raise (UserError ''boom'')] world_full)
       \<noteq> Raised (UserError ''boom'')"
  by (simp add: with_ManagedFile_def with_stmt_def ManagedFile_enter_def ManagedFile_exit_def
      ManagedFile_init_def py_open_def file_write_def file_close_def world_full_def world_ok_def)

text \<open>
  C2, amended. For every scope in which the body raises an exception after a successful
  acquisition, the file is closed exactly once; the caller observes the body's exception
  when the closing call succeeds, and the exception of the closing call when it fails.
  The closing call fails exactly when the body has buffered text that cannot be flushed.
\<close>

theorem operation_error_unless_release_fails:
  "can_open w nm \<Longrightarrow> body_outcome cs = Raised e \<Longrightarrow>
   count_list (scope_events w (snd (snd (with_ManagedFile nm cs w))))
        (EvClose (next_handle w)) = 1
   \<and> count_list (scope_events w (snd (snd (with_managed_file nm cs w))))
        (EvClose (next_handle w)) = 1
   \<and> fst (with_ManagedFile nm cs w) =
       (case fst (file_close (next_handle w)
                    (snd (run_body cs (next_handle w) (snd (py_open nm w))))) of
          Inl e' \<Rightarrow> Raised e'
        | Inr u \<Rightarrow> Raised e)
   \<and> fst (with_managed_file nm cs w) =
       (case fst (file_close (next_handle w)
                    (snd (run_body cs (next_handle w) (snd (py_open nm w))))) of
          Inl e' \<Rightarrow> Raised e'
        | Inr u \<Rightarrow> Raised e)
   \<and> fst (with_ManagedFile nm cs w) =
       (if concat (body_writes cs) = [] \<or> can_flush w nm then Raised e else Raised OSError)
   \<and> fst (with_managed_file nm cs w) =
       (if concat (body_writes cs) = [] \<or> can_flush w nm then Raised e else Raised OSError)"
proof -
  assume o: "can_open w nm" and b: "body_outcome cs = Raised e"
  have n: "count_list (scope_events w (snd (open_try_finally nm cs w)))
             (EvClose (next_handle w)) = 1"
    by (simp add: open_try_finally_trace [OF o] scope_events_def)
  have r: "fst (open_try_finally nm cs w) =
       (case fst (file_close (next_handle w)
                    (snd (run_body cs (next_handle w) (snd (py_open nm w))))) of
          Inl e' \<Rightarrow> Raised e'
        | Inr u \<Rightarrow> Raised e)"
    using open_try_finally_release [OF o, of cs] unfolding b .
  have c: "fst (open_try_finally nm cs w) =
       (if concat (body_writes cs) = [] \<or> can_flush w nm then Raised e else Raised OSError)"
    using open_try_finally_outcome [OF o, of cs] by (simp add: b)
  show ?thesis
    unfolding with_ManagedFile_world with_managed_file_world [OF o]
      with_ManagedFile_fst with_managed_file_fst [OF o]
    using n r c by blast
qed

theorem operation_error_unless_release_fails_witness:
  "can_open world_ok ''test.txt''
   \<and> body_outcome [Write ''Hello, World!'', Raise (UserError ''boom'')] = Raised (UserError ''boom'')
   \<and> fst (with_ManagedFile ''test.txt''
          [Write ''Hello, World!'', Raise (UserError ''boom'')] world_ok)
       = Raised (UserError ''boom'')
   \<and> fst (with_managed_file ''test.txt''
          [Write ''Hello, World!'', Raise (UserError ''boom'')] world_ok)
       = Raised (UserError ''boom'')
   \<and> can_open world_full ''test.txt''
   \<and> fst (with_ManagedFile ''test.txt'' [Raise (UserError ''boom'')] world_full)
       = Raised (UserError ''boom'')
   \<and> fst (with_managed_file ''test.txt'' [Write ''x'', Raise (UserError ''boom'')] world_full)
       = Raised OSError"
proof -
  have ok: "can_open world_ok ''test.txt''" by (simp add: world_ok_def)
  have okf: "can_open world_full ''test.txt''" by (simp add: world_full_def world_ok_def)
  have b: "body_outcome [Write ''Hello, World!'', Raise (UserError ''boom'')]
             = Raised (UserError ''boom'')" by simp
  have b1: "body_outcome [Raise (UserError ''boom'')] = Raised (UserError ''boom'')" by simp
  have b2: "body_outcome [Write ''x'', Raise (UserError ''boom'')] = Raised (UserError ''boom'')"
    by simp
  have f: "can_flush world_ok ''test.txt''" "\<not> can_flush world_full ''test.txt''"
    by (simp_all add: world_full_def world_ok_def)
  let ?c = "[Write ''Hello, World!'', Raise (UserError ''boom'')]"
  have p1: "fst (with_ManagedFile ''test.txt'' ?c world_ok) =
      (if concat (body_writes ?c) = [] \<or> can_flush world_ok ''test.txt''
       then Raised (UserError ''boom'') else Raised OSError)"
    and p2: "fst (with_managed_file ''test.txt'' ?c world_ok) =
      (if concat (body_writes ?c) = [] \<or> can_flush world_ok ''test.txt''
       then Raised (UserError ''boom'') else Raised OSError)"
    using operation_error_unless_release_fails [OF ok b] by blast+
  have p3: "fst (with_ManagedFile ''test.txt'' [Raise (UserError ''boom'')] world_full) =
      (if concat (body_writes [Raise (UserError ''boom'')]) = []
            \<or> can_flush world_full ''test.txt''
       then Raised (UserError ''boom'') else Raised OSError)"
    using operation_error_unless_release_fails [OF okf b1] by blast
  have p4: "fst (with_managed_file ''test.txt'' [Write ''x'', Raise (UserError ''boom'')]
                  world_full) =
      (if concat (body_writes [Write ''x'', Raise (UserError ''boom'')]) = []
            \<or> can_flush world_full ''test.txt''
       then Raised (UserError ''boom'') else Raised OSError)"
    using operation_error_unless_release_fails [OF okf b2] by blast
  show ?thesis
    using ok okf b by (simp add: p1 p2 p3 p4 f)
qed

section \<open>A failed acquisition\<close>

text \<open>
  C3. The claim: when acquisition fails, the release step is not invoked and the
  acquisition error reaches the caller. In a world where \<^verbatim>\<open>open('test.txt', 'w')\<close>
  raises OSError, the generator of \<^verbatim>\<open>managed_file\<close> runs its \<^verbatim>\<open>finally\<close> clause,
  \<^verbatim>\<open>f.close()\<close> reads the unbound local \<^verbatim>\<open>f\<close>, and the caller of the \<^verbatim>\<open>with\<close>
  statement observes UnboundLocalError.
\<close>

theorem managed_file_masks_acquisition_error:
  "fst (py_open ''test.txt'' world_locked) = Inl OSError
   \<and> fst (cm_enter (managed_file_start ''test.txt'') None world_locked) = Inl UnboundLocalError
   \<and> fst (with_managed_file ''test.txt'' [Write ''Hello, World!''] world_locked)
       = Raised UnboundLocalError"
  by (simp add: with_managed_file_def with_stmt_def cm_enter_def managed_file_start_def
      managed_file_finally_def py_open_def world_locked_def world_ok_def)

section \<open>Calling \<^verbatim>\<open>__exit__\<close> when nothing was acquired\<close>

text \<open>
  C4. The claim: calling exit after an enter that acquired nothing is a no-op that does not
  raise. On the code, \<^verbatim>\<open>ManagedFile('test.txt').__enter__()\<close> fails with OSError in a
  world where the target cannot be opened, \<^verbatim>\<open>self.file\<close> was never assigned, and the
  following \<^verbatim>\<open>__exit__(None, None, None)\<close> raises AttributeError at the test
  \<^verbatim>\<open>if self.file\<close>.
\<close>

theorem ManagedFile_exit_unacquired_raises:
  "fst (ManagedFile_enter (ManagedFile_init ''test.txt'') world_locked) = Inl OSError
   \<and> fst (ManagedFile_exit
            (fst (snd (ManagedFile_enter (ManagedFile_init ''test.txt'') world_locked)))
            None
            (snd (snd (ManagedFile_enter (ManagedFile_init ''test.txt'') world_locked))))
       = Inl AttributeError"
  by (simp add: ManagedFile_enter_def ManagedFile_exit_def ManagedFile_init_def py_open_def
      world_locked_def world_ok_def)

section \<open>The counted scope\<close>

text \<open>
  C5. Every \<^verbatim>\<open>__enter__\<close> of an Indenter adds one to the level and every
  \<^verbatim>\<open>__exit__\<close> subtracts one; N enters followed by N exits give back the original
  object; and at every point of that sequence, as after any sequence of calls on a new
  Indenter, the level is the number of enters minus the number of exits so far.
\<close>

theorem Indenter_counter:
  "level (Indenter_enter self) = level self + 1
   \<and> level (Indenter_exit self) = level self - 1
   \<and> Indenter_exit (Indenter_enter self) = self
   \<and> run_calls (replicate n Enter @ replicate n Exit) self = self
   \<and> level (run_calls (take k (replicate n Enter @ replicate n Exit)) Indenter_init)
       = int (count_list (take k (replicate n Enter @ replicate n Exit)) Enter)
         - int (count_list (take k (replicate n Enter @ replicate n Exit)) Exit)
   \<and> level (run_calls cs Indenter_init) = int (count_list cs Enter) - int (count_list cs Exit)"
proof -
  have "level (run_calls (replicate n Enter @ replicate n Exit) self) = level self"
    by (simp add: level_run_calls)
  then have "run_calls (replicate n Enter @ replicate n Exit) self = self"
    by simp
  then show ?thesis
    by (simp add: level_run_calls Indenter_enter_def Indenter_exit_def Indenter_init_def)
qed

theorem Indenter_counter_witness:
  "level (run_calls [Enter, Enter, Enter, Exit] Indenter_init) = 2
   \<and> run_calls [Enter, Enter, Enter, Exit, Exit, Exit] Indenter_init = Indenter_init"
  using Indenter_counter [of Indenter_init 3 0 "[Enter, Enter, Enter, Exit]"]
  by (simp add: numeral_3_eq_3)

section \<open>The concrete scenario\<close>

text \<open>
  C6. When the target \<^verbatim>\<open>test.txt\<close> is writable (it opens and its data can be flushed),
  \<^verbatim>\<open>with managed_file('test.txt') as f: f.write('Hello, World!')\<close> ends normally,
  leaves exactly \<^verbatim>\<open>Hello, World!\<close> as the content of the target, whatever it held
  before, and leaves the file object closed; the same holds for
  \<^verbatim>\<open>with open('test.txt', 'w') as f\<close>.
\<close>

theorem hello_world_scenario:
  "can_open w ''test.txt'' \<Longrightarrow> can_flush w ''test.txt'' \<Longrightarrow>
   fst (with_managed_file ''test.txt'' [Write ''Hello, World!''] w) = Normal
   \<and> fst (snd (with_managed_file ''test.txt'' [Write ''Hello, World!''] w)) = Some (next_handle w)
   \<and> disk (snd (snd (with_managed_file ''test.txt'' [Write ''Hello, World!''] w))) ''test.txt''
       = Some ''Hello, World!''
   \<and> closed (objs (snd (snd (with_managed_file ''test.txt'' [Write ''Hello, World!''] w)))
        (next_handle w))
   \<and> fst (with_open ''test.txt'' [Write ''Hello, World!''] w) = Normal
   \<and> disk (snd (with_open ''test.txt'' [Write ''Hello, World!''] w)) ''test.txt''
       = Some ''Hello, World!''
   \<and> closed (objs (snd (with_open ''test.txt'' [Write ''Hello, World!''] w)) (next_handle w))"
proof -
  assume o: "can_open w ''test.txt''" and f: "can_flush w ''test.txt''"
  have g: "fst (snd (with_managed_file ''test.txt'' [Write ''Hello, World!''] w))
             = Some (next_handle w)"
    using o f
    by (simp add: with_managed_file_def with_stmt_def cm_enter_def cm_exit_def
        managed_file_start_def managed_file_resume_def managed_file_finally_def py_open_def
        file_write_def file_close_def)
  show ?thesis
    using o f g
    by (simp add: with_managed_file_fst with_managed_file_world with_open_try_finally
        open_try_finally_outcome open_try_finally_disk open_try_finally_closed)
qed

theorem hello_world_scenario_witness:
  "can_open world_ok ''test.txt'' \<and> can_flush world_ok ''test.txt''
   \<and> fst (with_managed_file ''test.txt'' [Write ''Hello, World!''] world_ok) = Normal
   \<and> disk (snd (snd (with_managed_file ''test.txt'' [Write ''Hello, World!''] world_ok)))
        ''test.txt'' = Some ''Hello, World!''
   \<and> closed (objs (snd (snd (with_managed_file ''test.txt'' [Write ''Hello, World!''] world_ok))) 0)
   \<and> disk (snd (with_open ''test.txt'' [Write ''Hello, World!''] world_ok)) ''test.txt''
        = Some ''Hello, World!''"
proof -
  have o: "can_open world_ok ''test.txt''" and f: "can_flush world_ok ''test.txt''"
    by (simp_all add: world_ok_def)
  have n: "next_handle world_ok = 0" by (simp add: world_ok_def)
  show ?thesis
    using o f hello_world_scenario [OF o f] by (simp add: n)
qed

section \<open>The life cycle of the resource\<close>

text \<open>
  C7. The file a ManagedFile scope acquires goes from unopened to open to closed: before
  \<^verbatim>\<open>__enter__\<close> the object has no file and the handle is unopened; \<^verbatim>\<open>__enter__\<close>
  opens it; it is still open after any body, however the body ends; \<^verbatim>\<open>__exit__\<close>
  closes it from there, whatever exception is passed and whether or not the flush
  succeeds. The scope opens it once and closes it once, the close is the last event, a
  later write is refused with ValueError and changes nothing, and no runtime operation
  takes the closed file to another state.
\<close>

theorem ManagedFile_lifecycle:
  "can_open w nm \<Longrightarrow>
   (let m0 = ManagedFile_init nm;
        h = next_handle w;
        (r1, m1, w1) = ManagedFile_enter m0 w;
        (r2, w2) = run_body cs h w1;
        (r3, m3, w3) = ManagedFile_exit m1 exc w2
    in mfile m0 = None \<and> resource_state w h = Unopened
     \<and> r1 = Inr h \<and> mfile m1 = Some h \<and> resource_state w1 h = Open
     \<and> resource_state w2 h = Open
     \<and> m3 = m1 \<and> resource_state w3 h = Closed
     \<and> count_list (scope_events w w3) (EvOpen h nm) = 1
     \<and> count_list (scope_events w w3) (EvClose h) = 1
     \<and> last (trace w3) = EvClose h
     \<and> file_write h s w3 = (Inl ValueError, w3)
     \<and> resource_state (snd (py_open nm' w3)) h = Closed
     \<and> resource_state (snd (file_write h' s w3)) h = Closed
     \<and> resource_state (snd (file_close h' w3)) h = Closed
     \<and> snd (ManagedFile_exit m1 (case r2 of Raised e \<Rightarrow> Some e | _ \<Rightarrow> None) w2)
         = snd (with_ManagedFile nm cs w)
     \<and> resource_state (snd (snd (with_ManagedFile nm cs w))) h = Closed)"
proof -
  assume o: "can_open w nm"
  let ?h = "next_handle w"
  let ?m1 = "\<lparr>name = nm, mfile = Some ?h\<rparr>"
  let ?w1 = "w\<lparr>disk := (disk w)(nm \<mapsto> []),
        objs := (objs w)(?h := \<lparr>fname = nm, closed = False, pending = []\<rparr>),
        next_handle := Suc ?h,
        trace := trace w @ [EvOpen ?h nm]\<rparr>"
  let ?w2 = "?w1\<lparr>objs := (objs ?w1)(?h := (objs ?w1 ?h)
                 \<lparr>pending := pending (objs ?w1 ?h) @ concat (body_writes cs)\<rparr>),
              trace := trace ?w1 @ map (EvWrite ?h) (body_writes cs)\<rparr>"
  let ?ex = "case body_outcome cs of Raised e \<Rightarrow> Some e | _ \<Rightarrow> None"
  have op: "\<not> closed (objs ?w1 ?h)" by simp
  have s0: "mfile (ManagedFile_init nm) = None" "resource_state w ?h = Unopened"
    by (simp_all add: resource_state_def ManagedFile_init_def)
  have e: "ManagedFile_enter (ManagedFile_init nm) w = (Inr ?h, ?m1, ?w1)"
    using o by (simp add: ManagedFile_enter_def ManagedFile_init_def py_open_ok)
  have b: "run_body cs ?h ?w1 = (body_outcome cs, ?w2)"
    by (rule run_body_open [OF op])
  have s1: "resource_state ?w1 ?h = Open" and s2: "resource_state ?w2 ?h = Open"
    by (simp_all add: resource_state_def)
  have x: "\<exists>r3 w3. ManagedFile_exit ?m1 ex ?w2 = (r3, ?m1, w3) \<and> closed (objs w3 ?h)
             \<and> next_handle w3 = Suc ?h \<and> trace w3 = trace ?w2 @ [EvClose ?h]" for ex
    by (cases "concat (body_writes cs) = [] \<or> can_flush w nm")
      (simp_all add: ManagedFile_exit_def file_close_def)
  from x [of exc] obtain r3 w3 where x3: "ManagedFile_exit ?m1 exc ?w2 = (r3, ?m1, w3)"
    and c3: "closed (objs w3 ?h)" and h3: "next_handle w3 = Suc ?h"
    and t3: "trace w3 = trace ?w2 @ [EvClose ?h]"
    by blast
  have s3: "resource_state w3 ?h = Closed"
    using c3 h3 by (simp add: resource_state_def)
  have ev: "scope_events w w3 = EvOpen ?h nm # map (EvWrite ?h) (body_writes cs) @ [EvClose ?h]"
    by (simp add: scope_events_def t3)
  have n1: "count_list (scope_events w w3) (EvOpen ?h nm) = 1"
    and n2: "count_list (scope_events w w3) (EvClose ?h) = 1"
    by (simp_all add: ev)
  have l: "last (trace w3) = EvClose ?h" by (simp add: t3)
  have u1: "file_write ?h s w3 = (Inl ValueError, w3)"
    using c3 by (simp add: file_write_def)
  note u2 = closed_is_terminal(1) [OF s3, of nm'] closed_is_terminal(2) [OF s3, of h' s]
    closed_is_terminal(3) [OF s3, of h']
  have wm: "snd (ManagedFile_exit ?m1 ?ex ?w2) = snd (with_ManagedFile nm cs w)"
    by (simp add: with_ManagedFile_def with_stmt_def e b
        split: outcome.splits prod.splits sum.splits)
  from x [of ?ex] obtain r4 w4 where x4: "ManagedFile_exit ?m1 ?ex ?w2 = (r4, ?m1, w4)"
    and c4: "closed (objs w4 ?h)" and h4: "next_handle w4 = Suc ?h"
    by blast
  have "resource_state (snd (snd (ManagedFile_exit ?m1 ?ex ?w2))) ?h = Closed"
    unfolding x4 using c4 h4 by (simp add: resource_state_def)
  then have s4: "resource_state (snd (snd (with_ManagedFile nm cs w))) ?h = Closed"
    by (simp only: wm)
  show ?thesis
    unfolding Let_def e b x3 prod.case
    using s0 s1 s2 s3 n1 n2 l u1 u2 wm s4 by simp
qed

theorem ManagedFile_lifecycle_witness:
  "can_open world_ok ''test.txt''
   \<and> resource_state world_ok 0 = Unopened
   \<and> resource_state (snd (snd (with_ManagedFile ''test.txt''
          [Write ''Hello, World!'', Write ''end of file''] world_ok))) 0 = Closed"
proof -
  have ok: "can_open world_ok ''test.txt''" by (simp add: world_ok_def)
  have n: "next_handle world_ok = 0" by (simp add: world_ok_def)
  show ?thesis
    using ok ManagedFile_lifecycle [OF ok, of "[Write ''Hello, World!'', Write ''end of file'']" None "''x''" "''y''" 0]
    by (simp add: Let_def split_def n)
qed

section \<open>The timed scope\<close>

text \<open>
  When the wall clock is set back between \<^verbatim>\<open>__enter__\<close> and \<^verbatim>\<open>__exit__\<close>, the
  duration the Timer prints is negative.
\<close>

theorem Timer_negative_when_clock_set_back:
  "fst (timer_scope (world_clock clock_set_back)) = Normal
   \<and> stdout (snd (snd (timer_scope (world_clock clock_set_back))))
       = [Text ''Starting...'', Text ''end.'', Duration (- 3)]
   \<and> \<not> (0::int) \<le> - 3"
  by (simp add: timer_scope_def with_stmt_def Timer_enter_def Timer_exit_def Timer_init_def
      timer_body_def utcnow_def py_print_def sleep_def world_clock_def clock_set_back_def)

text \<open>
  C8, amended. \<^verbatim>\<open>__enter__\<close> returns \<^verbatim>\<open>None\<close>; \<^verbatim>\<open>__exit__\<close> prints the reading of
  the wall clock at exit minus the reading at enter, whatever happened in between, and the
  two readings are kept in \<^verbatim>\<open>start\<close> and \<^verbatim>\<open>end\<close>. For the scope of the module the
  printed duration is at least zero exactly when the clock was not set back between the two
  readings, and at least \<open>d\<close> whenever the second reading is at least \<open>d\<close> units after
  the first.
\<close>

theorem Timer_elapsed:
  "fst (Timer_enter self w) = Inr None
   \<and> stdout (snd (snd (Timer_exit (fst (snd (Timer_enter self w))) exc w2)))
       = stdout w2 @ [Duration (clock w2 (reads w2) - clock w (reads w))]
   \<and> fst (timer_scope w) = Normal
   \<and> start (fst (snd (timer_scope w))) = Some (clock w (reads w))
   \<and> end_t (fst (snd (timer_scope w))) = Some (clock w (Suc (reads w)))
   \<and> stdout (snd (snd (timer_scope w)))
       = stdout w @ [Text ''Starting...'', Text ''end.'',
                     Duration (clock w (Suc (reads w)) - clock w (reads w))]
   \<and> ((\<exists>x. last (stdout (snd (snd (timer_scope w)))) = Duration x \<and> 0 \<le> x)
        \<longleftrightarrow> clock w (reads w) \<le> clock w (Suc (reads w)))
   \<and> (clock w (reads w) + d \<le> clock w (Suc (reads w))
        \<longrightarrow> (\<exists>x. last (stdout (snd (snd (timer_scope w)))) = Duration x \<and> d \<le> x))"
proof -
  have e: "Timer_enter self w = (Inr None, self\<lparr>start := Some (clock w (reads w))\<rparr>,
                                 w\<lparr>reads := Suc (reads w)\<rparr>)" for self
    by (simp add: Timer_enter_def utcnow_def)
  have x: "stdout (snd (snd (Timer_exit (fst (snd (Timer_enter self w))) exc w2)))
       = stdout w2 @ [Duration (clock w2 (reads w2) - clock w (reads w))]"
    by (simp add: e Timer_exit_def utcnow_def py_print_def)
  have s: "timer_scope w =
      (Normal, \<lparr>start = Some (clock w (reads w)), end_t = Some (clock w (Suc (reads w)))\<rparr>,
       w\<lparr>reads := Suc (Suc (reads w)),
         stdout := stdout w @ [Text ''Starting...'', Text ''end.'',
                     Duration (clock w (Suc (reads w)) - clock w (reads w))]\<rparr>)"
    by (simp add: timer_scope_def with_stmt_def e Timer_exit_def Timer_init_def
        timer_body_def utcnow_def py_print_def sleep_def)
  show ?thesis
    unfolding s using x by (simp add: e)
qed

theorem Timer_elapsed_witness:
  "clock (world_clock clock_steady) 0 + 5 \<le> clock (world_clock clock_steady) (Suc 0)
   \<and> stdout (snd (snd (timer_scope (world_clock clock_steady))))
       = [Text ''Starting...'', Text ''end.'', Duration 5]
   \<and> (\<exists>x. last (stdout (snd (snd (timer_scope (world_clock clock_steady))))) = Duration x
            \<and> 5 \<le> x)"
proof -
  have r: "reads (world_clock clock_steady) = 0" "stdout (world_clock clock_steady) = []"
    "clock (world_clock clock_steady) 0 = 0" "clock (world_clock clock_steady) (Suc 0) = 5"
    by (simp_all add: world_clock_def clock_steady_def)
  show ?thesis
    using Timer_elapsed [of Timer_init "world_clock clock_steady" None
        "world_clock clock_steady" 5]
    by (simp add: r)
qed

section \<open>The two managers compared\<close>

text \<open>
  C9. The claim: the class-based and the generator-based manager behave alike for every
  name and body, also when acquisition fails. In a world where
  \<^verbatim>\<open>open('test.txt', 'w')\<close> raises OSError the scope of \<^verbatim>\<open>ManagedFile\<close> ends with
  that OSError and the scope of \<^verbatim>\<open>managed_file\<close> with UnboundLocalError.
\<close>

theorem managers_differ_when_open_fails:
  "fst (with_ManagedFile ''test.txt'' [Write ''Hello, World!''] world_locked) = Raised OSError
   \<and> fst (with_managed_file ''test.txt'' [Write ''Hello, World!''] world_locked)
       = Raised UnboundLocalError
   \<and> fst (with_ManagedFile ''test.txt'' [Write ''Hello, World!''] world_locked)
       \<noteq> fst (with_managed_file ''test.txt'' [Write ''Hello, World!''] world_locked)"
  by (simp add: with_ManagedFile_def ManagedFile_enter_def ManagedFile_init_def
      with_managed_file_def with_stmt_def cm_enter_def managed_file_start_def
      managed_file_finally_def py_open_def world_locked_def world_ok_def)

section \<open>The assertion on a tuple\<close>

text \<open>
  C10. An \<^verbatim>\<open>assert\<close> whose expression is a non-empty tuple never raises, with
  assertions enabled or not; in particular
  \<^verbatim>\<open>assert (1 == 2, 'This should fail...')\<close> never raises.
\<close>

theorem tuple_assert_never_raises:
  "assert_stmt debug (PTuple (v # vs)) = Inr () \<and> tuple_assert debug = Inr ()"
  by (simp add: assert_stmt_def tuple_assert_def)

theorem tuple_assert_never_raises_witness:
  "assert_stmt True (PTuple [PBool False, PStr ''This should fail...'']) = Inr ()
   \<and> assert_stmt True (PBool False) = Inl AssertionError"
  using tuple_assert_never_raises [of True "PBool False" "[PStr ''This should fail...'']"]
  by (simp add: assert_stmt_def)

end
